theory Spec2Isabelle
  imports Main
begin

section \<open>Values, exceptions and messages of \<open>roadrpc/rpc.py\<close>\<close>

text \<open>
  Python values that travel through the JSON-RPC engine are the values \<open>json.loads\<close>
  produces: \<open>None\<close>, booleans, integers, strings, lists and dicts with string keys.
  Floating-point numbers are outside this model. A dict is an association list in
  insertion order; \<open>dict.get\<close> reads the first binding of a key.
\<close>

datatype json =
    JNull
  | JBool bool
  | JInt int
  | JStr string
  | JList "json list"
  | JObj "(string \<times> json) list"

type_synonym dict = "(string \<times> json) list"

definition dict_get :: "dict \<Rightarrow> string \<Rightarrow> json \<Rightarrow> json" where
  "dict_get d k dflt = (case map_of d k of None \<Rightarrow> dflt | Some v \<Rightarrow> v)"


text \<open>The name Python prints for the class of a value, as in its error messages.\<close>

fun py_type_name :: "json \<Rightarrow> string" where
  "py_type_name JNull = ''NoneType''"
| "py_type_name (JBool b) = ''bool''"
| "py_type_name (JInt i) = ''int''"
| "py_type_name (JStr s) = ''str''"
| "py_type_name (JList xs) = ''list''"
| "py_type_name (JObj d) = ''dict''"


text \<open>
  The values a request's \<open>metadata\<close> dict holds: JSON values, and the \<open>datetime\<close>
  that \<open>TimingMiddleware\<close> stores, a point in time counted in microseconds.
\<close>

datatype pyobj = Json json | Datetime int


fun pyobj_type_name :: "pyobj \<Rightarrow> string" where
  "pyobj_type_name (Json j) = py_type_name j"
| "pyobj_type_name (Datetime t) = ''datetime.datetime''"

text \<open>\<open>class RPCErrorCode(int, Enum)\<close>\<close>

definition PARSE_ERROR :: int where "PARSE_ERROR = - 32700"
definition INVALID_REQUEST :: int where "INVALID_REQUEST = - 32600"
definition METHOD_NOT_FOUND :: int where "METHOD_NOT_FOUND = - 32601"
definition INVALID_PARAMS :: int where "INVALID_PARAMS = - 32602"
definition INTERNAL_ERROR :: int where "INTERNAL_ERROR = - 32603"
definition SERVER_ERROR :: int where "SERVER_ERROR = - 32000"

text \<open>
  \<open>class RPCError(Exception)\<close> with its fields \<open>code\<close>, \<open>message\<close>, \<open>data\<close>
  (\<open>data\<close> is \<open>JNull\<close> for \<open>None\<close>).
\<close>

record rpc_error =
  err_code :: int
  err_message :: string
  err_data :: json

text \<open>
  The exceptions the module's \<open>except\<close> clauses tell apart, all subclasses of
  \<open>Exception\<close>: \<open>RPCError\<close>, \<open>TypeError\<close>, \<open>json.JSONDecodeError\<close>, and any
  other exception, of which \<open>AttributeError\<close> is the one the module itself causes;
  \<open>OtherException\<close> stands for the rest (\<open>ValueError\<close>, \<open>RecursionError\<close>,
  \<open>ZeroDivisionError\<close>, ...). Each carries the text \<open>str(e)\<close> returns.
\<close>

datatype exn =
    RPCError rpc_error
  | TypeError string
  | AttributeError string
  | JSONDecodeError string
  | OtherException string

fun exn_str :: "exn \<Rightarrow> string" where
  "exn_str (RPCError e) = err_message e"
| "exn_str (TypeError m) = m"
| "exn_str (AttributeError m) = m"
| "exn_str (JSONDecodeError m) = m"
| "exn_str (OtherException m) = m"

text \<open>\<open>RPCError.to_dict\<close>\<close>

definition error_to_dict :: "rpc_error \<Rightarrow> dict" where
  "error_to_dict e =
     [(''code'', JInt (err_code e)), (''message'', JStr (err_message e))]
     @ (if err_data e \<noteq> JNull then [(''data'', err_data e)] else [])"

text \<open>
  \<open>@dataclass class RPCRequest\<close>. \<open>from_dict\<close> stores whatever the decoded object
  holds, so every declared field is a JSON value; \<open>req_id = JNull\<close> is \<open>id is None\<close>.

  The class declares four fields and no \<open>metadata\<close>, but it is a plain dataclass:
  an instance accepts new attributes, and \<open>metadata\<close> is the one the module reads.
  \<open>req_metadata\<close> is \<open>None\<close> while the instance has no such attribute and
  \<open>Some d\<close> once a caller or a hook has set it to the dict \<open>d\<close>.
\<close>

record request =
  req_method :: json
  req_params :: json
  req_id :: json
  req_jsonrpc :: json
  req_metadata :: "(string \<times> pyobj) list option"

text \<open>
  \<open>RPCRequest.from_dict\<close>: \<open>data.get\<close> exists on a dict only; on any other value the
  attribute lookup raises AttributeError. The new instance has the declared fields only.
\<close>

definition from_dict :: "json \<Rightarrow> exn + request" where
  "from_dict data =
     (case data of
        JObj d \<Rightarrow>
          Inr \<lparr> req_method = dict_get d ''method'' (JStr ''''),
                req_params = dict_get d ''params'' (JList []),
                req_id = dict_get d ''id'' JNull,
                req_jsonrpc = dict_get d ''jsonrpc'' (JStr ''2.0''),
                req_metadata = None \<rparr>
      | _ \<Rightarrow>
          Inl (AttributeError
                 ([CHR 39] @ py_type_name data @ [CHR 39] @ '' object has no attribute ''
                  @ [CHR 39] @ ''get'' @ [CHR 39])))"



definition is_notification :: "request \<Rightarrow> bool" where
  "is_notification r = (req_id r = JNull)"


text \<open>
  \<open>@dataclass class RPCResponse\<close>. \<open>resp_error\<close> is \<open>None\<close> or a dict.
\<close>

record response =
  resp_result :: json
  resp_error :: "dict option"
  resp_id :: json
  resp_jsonrpc :: string

definition success :: "json \<Rightarrow> json \<Rightarrow> response" where
  "success result i =
     \<lparr> resp_result = result, resp_error = None, resp_id = i, resp_jsonrpc = ''2.0'' \<rparr>"

definition failure :: "rpc_error \<Rightarrow> json \<Rightarrow> response" where
  "failure e i =
     \<lparr> resp_result = JNull, resp_error = Some (error_to_dict e), resp_id = i,
       resp_jsonrpc = ''2.0'' \<rparr>"

text \<open>
  \<open>RPCResponse.to_dict\<close>. \<open>if self.error\<close> is Python truthiness: \<open>None\<close> and the
  empty dict both take the \<open>else\<close> branch.
\<close>

definition response_to_dict :: "response \<Rightarrow> dict" where
  "response_to_dict r =
     [(''jsonrpc'', JStr (resp_jsonrpc r)), (''id'', resp_id r)]
     @ (case resp_error r of
          Some (b # bs) \<Rightarrow> [(''error'', JObj (b # bs))]
        | _ \<Rightarrow> [(''result'', resp_result r)])"

section \<open>Middleware, registry and server state\<close>

text \<open>
  Handlers and middleware hooks are arbitrary Python callables: they read and change
  state of the host program and they may raise. A callable is a function from the
  world \<open>'w\<close> to an outcome (\<open>Inl\<close> the exception raised, \<open>Inr\<close> the value
  returned) and the world it leaves behind.

  Python passes objects by reference, and a callable can change the objects it is
  given: a hook the request (and \<open>on_error\<close> the exception), a handler the argument
  values. So a callable returns its outcome together with those objects as it leaves
  them, also when it raises. The server itself is not changed while a call runs.

  The engine's state adds \<open>calls\<close> to the world: the log, in order, of the callables
  the engine has invoked. It is a ghost component, written by the engine only, that
  makes "the handler is invoked" and "the hook runs" observable.
\<close>

datatype event = BeforeCall | Handler string | OnError | AfterCall

record 'w state =
  world :: 'w
  calls :: "event list"

definition invoke :: "event \<Rightarrow> ('w \<Rightarrow> 'a \<times> 'w) \<Rightarrow> 'w state \<Rightarrow> 'a \<times> 'w state" where
  "invoke ev f s =
     (case f (world s) of (r, w') \<Rightarrow> (r, \<lparr> world = w', calls = calls s @ [ev] \<rparr>))"

text \<open>
  \<open>@dataclass class RPCMethod\<close>. A handler receives the positional and the keyword
  arguments of the Python call and returns its outcome and the argument values as it
  leaves them; a coroutine result is awaited by the engine inside the same \<open>try\<close>, so
  the outcome here is the awaited one.
\<close>

record 'w rpc_method =
  m_name :: string
  m_handler :: "json list \<Rightarrow> dict \<Rightarrow> 'w \<Rightarrow> ((exn + json) \<times> json list \<times> dict) \<times> 'w"
  m_description :: string
  m_params_schema :: dict
  m_metadata :: dict

text \<open>
  \<open>class RPCMiddleware\<close>: an object with the three hooks.
  \<^item> \<open>before_call\<close> returns a request, or raises and leaves the request it was given
    in some state;
  \<^item> \<open>after_call\<close> returns a response or raises, and leaves the request in some state;
  \<^item> \<open>on_error\<close> returns a response or \<open>None\<close>, or raises, and leaves the request and
    the exception in some state.
\<close>

record 'w middleware_obj =
  before_call :: "request \<Rightarrow> 'w \<Rightarrow> (exn \<times> request + request) \<times> 'w"
  after_call :: "request \<Rightarrow> response \<Rightarrow> 'w \<Rightarrow> ((exn + response) \<times> request) \<times> 'w"
  on_error :: "request \<Rightarrow> exn \<Rightarrow> 'w \<Rightarrow> ((exn + response option) \<times> request \<times> exn) \<times> 'w"

definition RPCMiddleware :: "'w middleware_obj" where
  "RPCMiddleware =
     \<lparr> before_call = (\<lambda>req w. (Inr req, w)),
       after_call = (\<lambda>req resp w. ((Inr resp, req), w)),
       on_error = (\<lambda>req e w. ((Inr None, req, e), w)) \<rparr>"

text \<open>
  \<open>class LoggingMiddleware\<close>: both hooks write to the \<open>logging\<close> module and return
  their argument; the log output is not part of the world.
\<close>

definition LoggingMiddleware :: "'w middleware_obj" where
  "LoggingMiddleware =
     \<lparr> before_call = (\<lambda>req w. (Inr req, w)),
       after_call = (\<lambda>req resp w. ((Inr resp, req), w)),
       on_error = on_error RPCMiddleware \<rparr>"

text \<open>
  \<open>self.methods.get(request.method)\<close> and \<open>request.method not in self.timings\<close> hash
  their key first: a list or a dict is unhashable and raises TypeError; the other
  values are hashable.
\<close>

datatype hashable = HNone | HBool bool | HInt int | HStr string

fun py_hash :: "json \<Rightarrow> exn + hashable" where
  "py_hash JNull = Inr HNone"
| "py_hash (JBool b) = Inr (HBool b)"
| "py_hash (JInt i) = Inr (HInt i)"
| "py_hash (JStr n) = Inr (HStr n)"
| "py_hash (JList xs) = Inl (TypeError (''unhashable type: '' @ [CHR 39] @ ''list'' @ [CHR 39]))"
| "py_hash (JObj d) = Inl (TypeError (''unhashable type: '' @ [CHR 39] @ ''dict'' @ [CHR 39]))"






text \<open>
  \<open>class RPCServer\<close>: the registry \<open>methods\<close>, a dict keyed by the method name
  (\<open>name: str\<close>), and the middleware list in registration order. The lock serialises
  \<open>register\<close> and \<open>unregister\<close> and has no effect on a sequential run.
\<close>

record 'w server =
  methods :: "string \<Rightarrow> 'w rpc_method option"
  middleware :: "'w middleware_obj list"

definition RPCServer :: "'w server" where
  "RPCServer = \<lparr> methods = Map.empty, middleware = [] \<rparr>"

definition add_middleware :: "'w server \<Rightarrow> 'w middleware_obj \<Rightarrow> 'w server" where
  "add_middleware srv mw = srv\<lparr> middleware := middleware srv @ [mw] \<rparr>"

definition register ::
  "'w server \<Rightarrow> string
   \<Rightarrow> (json list \<Rightarrow> dict \<Rightarrow> 'w \<Rightarrow> ((exn + json) \<times> json list \<times> dict) \<times> 'w)
   \<Rightarrow> string \<Rightarrow> 'w server"
where
  "register srv name h description =
     srv\<lparr> methods := (methods srv)(name \<mapsto>
            \<lparr> m_name = name, m_handler = h, m_description = description,
              m_params_schema = [], m_metadata = [] \<rparr>) \<rparr>"

definition unregister :: "'w server \<Rightarrow> string \<Rightarrow> bool \<times> 'w server" where
  "unregister srv name =
     (if methods srv name \<noteq> None
      then (True, srv\<lparr> methods := (methods srv)(name := None) \<rparr>)
      else (False, srv))"

text \<open>
  \<open>self.methods.get\<close> on a hashed key. Every key of the registry is a string, so a key
  that is not a string finds nothing.
\<close>

fun methods_get :: "'w server \<Rightarrow> hashable \<Rightarrow> 'w rpc_method option" where
  "methods_get srv (HStr n) = methods srv n"
| "methods_get srv k = None"

text \<open>\<open>str\<close> of a hashable value, as the f-string of the not-found message formats it.\<close>

fun str_nat :: "nat \<Rightarrow> string" where
  "str_nat n =
     (if n < 10 then [char_of (48 + n)]
      else str_nat (n div 10) @ [char_of (48 + n mod 10)])"

declare str_nat.simps [simp del]

definition str_int :: "int \<Rightarrow> string" where
  "str_int i = (if i < 0 then ''-'' @ str_nat (nat (- i)) else str_nat (nat i))"

fun py_str :: "hashable \<Rightarrow> string" where
  "py_str HNone = ''None''"
| "py_str (HBool b) = (if b then ''True'' else ''False'')"
| "py_str (HInt i) = str_int i"
| "py_str (HStr n) = n"

section \<open>The dispatch engine: \<open>RPCServer.call\<close>\<close>

text \<open>
  The \<open>for mw in self.middleware: request = await mw.before_call(request)\<close> loop inside
  the first \<open>try\<close>. When a hook raises, the local variable \<open>request\<close> still names
  the object that hook was given, in the state the hook left it, and the \<open>except\<close>
  clauses read its \<open>id\<close>: the outcome is the exception, if any, with that request.
\<close>

fun run_before ::
  "'w middleware_obj list \<Rightarrow> request \<Rightarrow> 'w state \<Rightarrow> (exn option \<times> request) \<times> 'w state"
where
  "run_before [] req s = ((None, req), s)"
| "run_before (mw # mws) req s =
     (case invoke BeforeCall (before_call mw req) s of
        (Inl (e, req'), s') \<Rightarrow> ((Some e, req'), s')
      | (Inr req', s') \<Rightarrow> run_before mws req' s')"

text \<open>
  The call of the handler: \<open>handler(**params)\<close> for a dict, \<open>handler(*params)\<close> for a
  list, \<open>handler()\<close> otherwise. The values the handler was passed are the ones
  \<open>request.params\<close> holds, so the request is left with them as the handler leaves them.
\<close>

definition call_handler ::
  "'w rpc_method \<Rightarrow> request \<Rightarrow> 'w \<Rightarrow> ((exn + json) \<times> request) \<times> 'w"
where
  "call_handler m req w =
     (case req_params req of
        JObj kw \<Rightarrow>
          (case m_handler m [] kw w of
             ((out, xs', kw'), w') \<Rightarrow> ((out, req\<lparr> req_params := JObj kw' \<rparr>), w'))
      | JList xs \<Rightarrow>
          (case m_handler m xs [] w of
             ((out, xs', kw'), w') \<Rightarrow> ((out, req\<lparr> req_params := JList xs' \<rparr>), w'))
      | _ \<Rightarrow>
          (case m_handler m [] [] w of
             ((out, xs', kw'), w') \<Rightarrow> ((out, req), w')))"

text \<open>
  The \<open>for ... else\<close> loop over \<open>on_error\<close> in the last \<open>except\<close> clause: the first
  response a hook returns wins, the \<open>else\<close> branch builds the internal error. A hook
  that raises is not caught.
\<close>

fun run_on_error ::
  "'w middleware_obj list \<Rightarrow> request \<Rightarrow> exn \<Rightarrow> 'w state
   \<Rightarrow> (exn + response) \<times> request \<times> 'w state"
where
  "run_on_error [] req e s =
     (Inr (failure \<lparr> err_code = INTERNAL_ERROR, err_message = exn_str e, err_data = JNull \<rparr>
             (req_id req)), req, s)"
| "run_on_error (mw # mws) req e s =
     (case invoke OnError (on_error mw req e) s of
        ((Inl e', req', e2), s') \<Rightarrow> (Inl e', req', s')
      | ((Inr None, req', e2), s') \<Rightarrow> run_on_error mws req' e2 s'
      | ((Inr (Some r), req', e2), s') \<Rightarrow> (Inr r, req', s'))"

text \<open>The "Execute method" \<open>try\<close> statement with its three \<open>except\<close> clauses.\<close>

definition execute ::
  "'w middleware_obj list \<Rightarrow> 'w rpc_method \<Rightarrow> request \<Rightarrow> 'w state
   \<Rightarrow> (exn + response) \<times> request \<times> 'w state"
where
  "execute mws m req s =
     (case invoke (Handler (m_name m)) (call_handler m req) s of
        ((Inr result, req'), s') \<Rightarrow> (Inr (success result (req_id req')), req', s')
      | ((Inl e, req'), s') \<Rightarrow>
          (case e of
             RPCError err \<Rightarrow> (Inr (failure err (req_id req')), req', s')
           | TypeError msg \<Rightarrow>
               (Inr (failure \<lparr> err_code = INVALID_PARAMS, err_message = msg, err_data = JNull \<rparr>
                       (req_id req')), req', s')
           | _ \<Rightarrow> run_on_error mws req' e s'))"

text \<open>The "Apply after middleware" loop; a hook that raises is not caught.\<close>

fun run_after ::
  "'w middleware_obj list \<Rightarrow> request \<Rightarrow> response \<Rightarrow> 'w state
   \<Rightarrow> (exn + response) \<times> request \<times> 'w state"
where
  "run_after [] req resp s = (Inr resp, req, s)"
| "run_after (mw # mws) req resp s =
     (case invoke AfterCall (after_call mw req resp) s of
        ((Inl e, req'), s') \<Rightarrow> (Inl e, req', s')
      | ((Inr resp', req'), s') \<Rightarrow> run_after mws req' resp' s')"

text \<open>
  \<open>RPCServer.call\<close>. The result is \<open>Inl\<close> for an exception that leaves \<open>call\<close>,
  \<open>Inr None\<close> for \<open>return None\<close> and \<open>Inr (Some r)\<close> for a returned response.
\<close>

definition call ::
  "'w server \<Rightarrow> request \<Rightarrow> 'w state \<Rightarrow> (exn + response option) \<times> 'w state"
where
  "call srv request s =
     (case run_before (middleware srv) request s of
        ((Some e, req), s1) \<Rightarrow>
          (case e of
             RPCError err \<Rightarrow> (Inr (Some (failure err (req_id req))), s1)
           | _ \<Rightarrow>
               (Inr (Some (failure \<lparr> err_code = INTERNAL_ERROR, err_message = exn_str e,
                                     err_data = JNull \<rparr> (req_id req))), s1))
      | ((None, req), s1) \<Rightarrow>
          (case py_hash (req_method req) of
             Inl e \<Rightarrow> (Inl e, s1)
           | Inr k \<Rightarrow>
               (case methods_get srv k of
                  None \<Rightarrow>
                    (Inr (Some (failure \<lparr> err_code = METHOD_NOT_FOUND,
                                          err_message = ''Method not found: '' @ py_str k,
                                          err_data = JNull \<rparr> (req_id req))), s1)
                | Some m \<Rightarrow>
                    (case execute (middleware srv) m req s1 of
                       (Inl e, req2, s2) \<Rightarrow> (Inl e, s2)
                     | (Inr response, req2, s2) \<Rightarrow>
                         (case run_after (middleware srv) req2 response s2 of
                            (Inl e, req3, s3) \<Rightarrow> (Inl e, s3)
                          | (Inr response', req3, s3) \<Rightarrow>
                              (if is_notification req3 then (Inr None, s3)
                               else (Inr (Some response'), s3)))))))"

section \<open>\<open>RPCServer.handle_json\<close>\<close>

text \<open>
  \<open>json.loads\<close> and \<open>json.dumps\<close> belong to the standard library; they are the
  parameters \<open>loads\<close> and \<open>dumps\<close>. \<open>loads\<close> returns the decoded value or raises:
  \<open>JSONDecodeError\<close> for text that is not JSON, and other exceptions besides
  (\<open>ValueError\<close> for an integer literal beyond the digit limit, \<open>RecursionError\<close> for
  deep nesting). \<open>handle_json\<close> catches \<open>json.JSONDecodeError\<close> only.
  The loop over a batch appends the encoded response of every call that returned one.
\<close>

fun handle_batch ::
  "'w server \<Rightarrow> json list \<Rightarrow> json list \<Rightarrow> 'w state \<Rightarrow> (exn + json list) \<times> 'w state"
where
  "handle_batch srv [] responses s = (Inr responses, s)"
| "handle_batch srv (item # items) responses s =
     (case from_dict item of
        Inl e \<Rightarrow> (Inl e, s)
      | Inr request \<Rightarrow>
          (case call srv request s of
             (Inl e, s') \<Rightarrow> (Inl e, s')
           | (Inr None, s') \<Rightarrow> handle_batch srv items responses s'
           | (Inr (Some response), s') \<Rightarrow>
               handle_batch srv items (responses @ [JObj (response_to_dict response)]) s'))"

definition handle_json ::
  "(string \<Rightarrow> exn + json) \<Rightarrow> (json \<Rightarrow> string) \<Rightarrow> 'w server \<Rightarrow> string \<Rightarrow> 'w state
   \<Rightarrow> (exn + string) \<times> 'w state"
where
  "handle_json loads dumps srv json_str s =
     (case loads json_str of
        Inl e \<Rightarrow>
          (case e of
             JSONDecodeError msg \<Rightarrow>
               (Inr (dumps (JObj (response_to_dict
                       (failure \<lparr> err_code = PARSE_ERROR, err_message = msg,
                                  err_data = JNull \<rparr> JNull)))), s)
           | _ \<Rightarrow> (Inl e, s))
      | Inr data \<Rightarrow>
          (case data of
             JList items \<Rightarrow>
               (if items = []
                then (Inr (dumps (JObj (response_to_dict
                        (failure \<lparr> err_code = INVALID_REQUEST, err_message = ''Empty batch'',
                                   err_data = JNull \<rparr> JNull)))), s)
                else (case handle_batch srv items [] s of
                        (Inl e, s') \<Rightarrow> (Inl e, s')
                      | (Inr responses, s') \<Rightarrow> (Inr (dumps (JList responses)), s')))
           | _ \<Rightarrow>
               (case from_dict data of
                  Inl e \<Rightarrow> (Inl e, s)
                | Inr request \<Rightarrow>
                    (case call srv request s of
                       (Inl e, s') \<Rightarrow> (Inl e, s')
                     | (Inr None, s') \<Rightarrow> (Inr [], s')
                     | (Inr (Some response), s') \<Rightarrow>
                         (Inr (dumps (JObj (response_to_dict response))), s')))))"

section \<open>The response parsing of \<open>RPCClient.call\<close>\<close>



section \<open>Reference definitions\<close>








section \<open>Example handlers, middleware and servers\<close>

text \<open>
  Concrete inputs for the instances below. The world is a counter of handler runs: the
  observable side effect of a handler. \<open>example_add\<close> follows \<open>add\<close> of
  \<open>example_usage\<close> on two integers passed by position; any other argument list raises
  TypeError before the body runs. The handlers leave their arguments as they are.
\<close>

definition example_add ::
  "json list \<Rightarrow> dict \<Rightarrow> nat \<Rightarrow> ((exn + json) \<times> json list \<times> dict) \<times> nat"
where
  "example_add xs kw w =
     (case (xs, kw) of
        ([JInt a, JInt b], []) \<Rightarrow> ((Inr (JInt (a + b)), xs, kw), Suc w)
      | _ \<Rightarrow> ((Inl (TypeError ''add() takes two integers''), xs, kw), w))"



text \<open>
  A middleware whose \<open>before_call\<close> raises a protocol error that carries data, and
  leaves the request as it was.
\<close>

definition deny_middleware :: "'w middleware_obj" where
  "deny_middleware =
     RPCMiddleware\<lparr> before_call := (\<lambda>req w.
        (Inl (RPCError \<lparr> err_code = - 32001, err_message = ''Authentication required'',
                         err_data = JObj [(''reason'', JStr ''no token'')] \<rparr>, req), w)) \<rparr>"


definition plain_server :: "nat server" where
  "plain_server = register RPCServer ''add'' example_add ''Add two numbers''"


definition guarded_server :: "nat server" where
  "guarded_server =
     register (add_middleware (add_middleware RPCServer LoggingMiddleware) deny_middleware)
       ''add'' example_add ''Add two numbers''"


definition initial_state :: "nat state" where
  "initial_state = \<lparr> world = 0, calls = [] \<rparr>"

text \<open>A request as \<open>from_dict\<close> builds it: the declared fields and no \<open>metadata\<close>.\<close>

definition mk_request :: "string \<Rightarrow> json \<Rightarrow> json \<Rightarrow> request" where
  "mk_request name ps i =
     \<lparr> req_method = JStr name, req_params = ps, req_id = i, req_jsonrpc = JStr ''2.0'',
       req_metadata = None \<rparr>"





text \<open>
  Stand-ins for the two library functions at the instances below. \<open>dumps_plain\<close> is
  \<open>json.dumps\<close> with its default separators on values whose strings hold no
  character that needs escaping.
\<close>

definition quoted :: "string \<Rightarrow> string" where
  "quoted s = [CHR 0x22] @ s @ [CHR 0x22]"

fun join :: "string \<Rightarrow> string list \<Rightarrow> string" where
  "join sep [] = []"
| "join sep [x] = x"
| "join sep (x # y # ys) = x @ sep @ join sep (y # ys)"

fun dumps_plain :: "json \<Rightarrow> string" where
  "dumps_plain JNull = ''null''"
| "dumps_plain (JBool b) = (if b then ''true'' else ''false'')"
| "dumps_plain (JInt i) = str_int i"
| "dumps_plain (JStr s) = quoted s"
| "dumps_plain (JList xs) = ''['' @ join '', '' (map dumps_plain xs) @ '']''"
| "dumps_plain (JObj d) =
     ''{'' @ join '', '' (map (\<lambda>kv. quoted (fst kv) @ '': '' @ dumps_plain (snd kv)) d) @ ''}''"











text \<open>
  An integer literal of 4301 digits, one more than \<open>json.loads\<close> converts: it raises
  \<open>ValueError\<close>, which is not a \<open>JSONDecodeError\<close>.
\<close>

definition long_number_text :: string where
  "long_number_text = replicate 4301 (CHR ''1'')"

section \<open>Auxiliary facts about the hook loops\<close>

lemma calls_invoke: "invoke ev f s = (r, s') \<Longrightarrow> calls s' = calls s @ [ev]"
  by (auto simp: invoke_def split: prod.splits)

lemma run_before_append:
  "run_before (pre @ post) req s =
     (case run_before pre req s of
        ((None, r), s1) \<Rightarrow> run_before post r s1
      | ((Some e, r), s1) \<Rightarrow> ((Some e, r), s1))"
  by (induction pre arbitrary: req s) (auto split: prod.splits sum.splits option.splits)

lemma run_before_calls:
  "run_before pre req s = ((None, r), s1) \<Longrightarrow>
   calls s1 = calls s @ replicate (length pre) BeforeCall"
proof (induction pre arbitrary: req s)
  case Nil
  then show ?case by simp
next
  case (Cons mw pre)
  from Cons.prems obtain req' s' where
    inv: "invoke BeforeCall (before_call mw req) s = (Inr req', s')"
    and rest: "run_before pre req' s' = ((None, r), s1)"
    by (auto split: prod.splits sum.splits)
  have "calls s' = calls s @ [BeforeCall]" using inv by (rule calls_invoke)
  moreover have "calls s1 = calls s' @ replicate (length pre) BeforeCall"
    using rest by (rule Cons.IH)
  ultimately show ?case by (simp add: replicate_app_Cons_same)
qed

lemma run_before_raise:
  assumes "run_before pre request s = ((None, req), s1)"
    and "before_call mw req (world s1) = (Inl (e, req2), w2)"
  shows "run_before (pre @ mw # post) request s =
           ((Some e, req2),
            \<lparr> world = w2, calls = calls s @ replicate (Suc (length pre)) BeforeCall \<rparr>)"
  using assms run_before_calls[OF assms(1)]
  by (simp add: run_before_append invoke_def replicate_append_same)











section \<open>Message model\<close>



section \<open>Method registry\<close>

text \<open>
  Claim C8. After \<open>register(name, h)\<close> the lookup of \<open>name\<close> finds an entry whose
  handler is \<open>h\<close>, and \<open>unregister(name)\<close> then returns true; after
  \<open>unregister(name)\<close> the lookup finds nothing; \<open>unregister\<close> of a name with no
  entry returns false; a second \<open>unregister\<close> of the same name returns false and
  leaves the server as the first one left it.
\<close>

theorem register_unregister_lookup:
  "map_option m_handler (methods_get (register srv name h d) (HStr name)) = Some h
   \<and> fst (unregister (register srv name h d) name) = True
   \<and> methods_get (snd (unregister srv name)) (HStr name) = None
   \<and> (methods_get srv (HStr name) = None \<longrightarrow> fst (unregister srv name) = False)
   \<and> fst (unregister (snd (unregister srv name)) name) = False
   \<and> snd (unregister (snd (unregister srv name)) name) = snd (unregister srv name)"
  by (simp add: register_def unregister_def)

theorem register_unregister_lookup_witness:
  "methods_get (RPCServer :: nat server) (HStr ''add'') = None
   \<and> fst (unregister (RPCServer :: nat server) ''add'') = False
   \<and> map_option m_handler
        (methods_get (register RPCServer ''add'' example_add ''Add two numbers'') (HStr ''add''))
       = Some example_add
   \<and> methods_get (snd (unregister plain_server ''add'')) (HStr ''add'') = None
   \<and> fst (unregister plain_server ''add'') = True
   \<and> fst (unregister (snd (unregister plain_server ''add'')) ''add'') = False"
  using register_unregister_lookup [of "RPCServer :: nat server" "''add''" example_add
      "''Add two numbers''"]
    register_unregister_lookup [of "plain_server" "''add''" example_add "''Add two numbers''"]
  by (simp add: RPCServer_def plain_server_def)

section \<open>Single call\<close>

text \<open>
  Claim C1 fails on the code. A notification (no id) for a method that is not registered
  is answered: \<open>call\<close> returns the method-not-found response, with id \<open>None\<close>,
  through the early \<open>return\<close> that precedes the check for notifications.
\<close>

theorem notification_of_unknown_method_is_answered:
  "call (RPCServer :: nat server) (mk_request ''nope'' (JList []) JNull) initial_state
   = (Inr (Some \<lparr> resp_result = JNull,
                   resp_error = Some [(''code'', JInt (- 32601)),
                                      (''message'', JStr ''Method not found: nope'')],
                   resp_id = JNull, resp_jsonrpc = ''2.0'' \<rparr>),
      initial_state)"
  by (simp add: call_def RPCServer_def mk_request_def failure_def error_to_dict_def
      METHOD_NOT_FOUND_def)

text \<open>
  Claim C5. When the before-hooks ahead of a middleware return and its own
  \<open>before_call\<close> raises an \<open>RPCError\<close> with code \<open>c\<close>, message \<open>msg\<close> and data
  \<open>d\<close>, \<open>call\<close> returns the failure response whose error is exactly that code and
  message, and that data when it is not \<open>None\<close>, with the id of the request as the
  hook left it. The only callables invoked are the before-hooks up to and including the
  raising one, so no handler, no \<open>on_error\<close> and no \<open>after_call\<close> hook runs, and the
  world is the one the raising hook left.
\<close>

theorem before_call_error_short_circuits:
  assumes "middleware srv = pre @ mw # post"
    and "run_before pre request s = ((None, req), s1)"
    and "before_call mw req (world s1) =
           (Inl (RPCError \<lparr> err_code = c, err_message = msg, err_data = d \<rparr>, req2), w2)"
  shows "call srv request s =
           (Inr (Some \<lparr> resp_result = JNull,
                         resp_error = Some ([(''code'', JInt c), (''message'', JStr msg)]
                                            @ (if d = JNull then [] else [(''data'', d)])),
                         resp_id = req_id req2, resp_jsonrpc = ''2.0'' \<rparr>),
            \<lparr> world = w2, calls = calls s @ replicate (Suc (length pre)) BeforeCall \<rparr>)"
  using run_before_raise[OF assms(2,3), of post] assms(1)
  by (simp add: call_def failure_def error_to_dict_def)

theorem before_call_error_short_circuits_witness:
  "middleware guarded_server = [LoggingMiddleware] @ deny_middleware # []
   \<and> run_before [LoggingMiddleware] (mk_request ''add'' (JList [JInt 1, JInt 2]) (JInt 1))
        initial_state
       = ((None, mk_request ''add'' (JList [JInt 1, JInt 2]) (JInt 1)),
          \<lparr> world = 0, calls = [BeforeCall] \<rparr>)
   \<and> before_call deny_middleware (mk_request ''add'' (JList [JInt 1, JInt 2]) (JInt 1)) (0::nat)
       = (Inl (RPCError \<lparr> err_code = - 32001, err_message = ''Authentication required'',
                          err_data = JObj [(''reason'', JStr ''no token'')] \<rparr>,
               mk_request ''add'' (JList [JInt 1, JInt 2]) (JInt 1)), 0)
   \<and> call guarded_server (mk_request ''add'' (JList [JInt 1, JInt 2]) (JInt 1)) initial_state
       = (Inr (Some \<lparr> resp_result = JNull,
                       resp_error = Some [(''code'', JInt (- 32001)),
                                          (''message'', JStr ''Authentication required''),
                                          (''data'', JObj [(''reason'', JStr ''no token'')])],
                       resp_id = JInt 1, resp_jsonrpc = ''2.0'' \<rparr>),
          \<lparr> world = 0, calls = [BeforeCall, BeforeCall] \<rparr>)"
proof -
  let ?rq = "mk_request ''add'' (JList [JInt 1, JInt 2]) (JInt 1)"
  let ?e = "\<lparr> err_code = - 32001, err_message = ''Authentication required'',
              err_data = JObj [(''reason'', JStr ''no token'')] \<rparr>"
  have h1: "middleware guarded_server = [LoggingMiddleware] @ deny_middleware # []"
    by (simp add: guarded_server_def register_def add_middleware_def RPCServer_def)
  have h2: "run_before [LoggingMiddleware] ?rq initial_state
              = ((None, ?rq), \<lparr> world = 0, calls = [BeforeCall] \<rparr>)"
    by (simp add: LoggingMiddleware_def invoke_def initial_state_def)
  have h3: "before_call deny_middleware ?rq (world \<lparr> world = 0::nat, calls = [BeforeCall] \<rparr>)
              = (Inl (RPCError ?e, ?rq), 0)"
    by (simp add: deny_middleware_def RPCMiddleware_def)
  have h3': "before_call deny_middleware ?rq (0::nat) = (Inl (RPCError ?e, ?rq), 0)"
    using h3 by simp
  have c: "call guarded_server ?rq initial_state
             = (Inr (Some \<lparr> resp_result = JNull,
                       resp_error = Some [(''code'', JInt (- 32001)),
                                          (''message'', JStr ''Authentication required''),
                                          (''data'', JObj [(''reason'', JStr ''no token'')])],
                       resp_id = JInt 1, resp_jsonrpc = ''2.0'' \<rparr>),
          \<lparr> world = 0, calls = [BeforeCall, BeforeCall] \<rparr>)"
    using before_call_error_short_circuits [OF h1 h2 h3]
    by (simp add: initial_state_def mk_request_def)
  show ?thesis using h1 h2 h3' c by (intro conjI)
qed












section \<open>Text in, text out\<close>

text \<open>
  Claim C6. When the input text decodes to the empty list, \<open>handle_json\<close> returns the
  encoding of one response object, not of an array: the failure with code -32600 and
  message "Empty batch", whose id is \<open>None\<close>. Nothing is invoked.
\<close>

theorem empty_batch_invalid_request:
  "loads json_str = Inr (JList []) \<Longrightarrow>
   handle_json loads dumps srv json_str s =
     (Inr (dumps (JObj [(''jsonrpc'', JStr ''2.0''), (''id'', JNull),
                        (''error'', JObj [(''code'', JInt (- 32600)),
                                          (''message'', JStr ''Empty batch'')])])), s)"
  by (simp add: handle_json_def response_to_dict_def failure_def error_to_dict_def
      INVALID_REQUEST_def)

theorem empty_batch_invalid_request_witness:
  "(\<lambda>t. Inr (JList [])) ''[]'' = (Inr (JList []) :: exn + json)
   \<and> handle_json (\<lambda>t. Inr (JList [])) dumps_plain plain_server ''[]'' initial_state =
       (Inr (dumps_plain (JObj [(''jsonrpc'', JStr ''2.0''), (''id'', JNull),
                                (''error'', JObj [(''code'', JInt (- 32600)),
                                                  (''message'', JStr ''Empty batch'')])])),
        initial_state)"
  using empty_batch_invalid_request
    [of "\<lambda>t. Inr (JList [])" "''[]''" dumps_plain plain_server initial_state]
  by simp

text \<open>
  Claim C4, as amended. When \<open>json.loads\<close> rejects the input text with a
  \<open>JSONDecodeError\<close>, \<open>handle_json\<close> returns the encoding of a single failure response
  with code -32700, the text of the decoding error as message and id \<open>None\<close>, and
  raises nothing.
\<close>

theorem undecodable_text_parse_error:
  "loads json_str = Inl (JSONDecodeError msg) \<Longrightarrow>
   handle_json loads dumps srv json_str s =
     (Inr (dumps (JObj [(''jsonrpc'', JStr ''2.0''), (''id'', JNull),
                        (''error'', JObj [(''code'', JInt (- 32700)),
                                          (''message'', JStr msg)])])), s)"
  by (simp add: handle_json_def response_to_dict_def failure_def error_to_dict_def
      PARSE_ERROR_def)

theorem undecodable_text_parse_error_witness:
  "(\<lambda>t. Inl (JSONDecodeError ''Expecting value: line 1 column 1 (char 0)'')) ''?''
     = (Inl (JSONDecodeError ''Expecting value: line 1 column 1 (char 0)'') :: exn + json)
   \<and> handle_json (\<lambda>t. Inl (JSONDecodeError ''Expecting value: line 1 column 1 (char 0)''))
        dumps_plain plain_server ''?'' initial_state =
       (Inr (dumps_plain
               (JObj [(''jsonrpc'', JStr ''2.0''), (''id'', JNull),
                      (''error'',
                       JObj [(''code'', JInt (- 32700)),
                             (''message'',
                              JStr ''Expecting value: line 1 column 1 (char 0)'')])])),
        initial_state)"
  using undecodable_text_parse_error
    [of "\<lambda>t. Inl (JSONDecodeError ''Expecting value: line 1 column 1 (char 0)'')" "''?''"
        "''Expecting value: line 1 column 1 (char 0)''" dumps_plain plain_server initial_state]
  by simp

text \<open>
  Claim C4 as stated fails in both of its cases. For decoded content that is neither a
  list nor an object: the text \<open>42\<close> decodes to a number, \<open>RPCRequest.from_dict\<close>
  calls \<open>get\<close> on it, and the AttributeError leaves \<open>handle_json\<close>. For text that
  cannot be decoded: on an integer literal of 4301 digits \<open>json.loads\<close> raises a
  \<open>ValueError\<close>, which the \<open>except json.JSONDecodeError\<close> clause does not catch.
\<close>

theorem malformed_envelope_raises:
  "handle_json (\<lambda>t. Inr (JInt 42)) dumps_plain plain_server ''42'' initial_state =
     (Inl (AttributeError ([CHR 39] @ ''int'' @ [CHR 39] @ '' object has no attribute ''
                           @ [CHR 39] @ ''get'' @ [CHR 39])),
      initial_state)
   \<and> handle_json
        (\<lambda>t. Inl (OtherException (''Exceeds the limit (4300 digits) for integer string conversion: ''
                   @ ''value has 4301 digits; use sys.set_int_max_str_digits() ''
                   @ ''to increase the limit'')))
        dumps_plain plain_server long_number_text initial_state =
     (Inl (OtherException (''Exceeds the limit (4300 digits) for integer string conversion: ''
                   @ ''value has 4301 digits; use sys.set_int_max_str_digits() ''
                   @ ''to increase the limit'')),
      initial_state)"
  by (simp add: handle_json_def from_dict_def)




end
